theory Spec2Isabelle
  imports Complex_Main
begin

section \<open>Consul service discovery: API configuration and blocking queries\<close>

text \<open>
  A shallow embedding of \<^verbatim>\<open>lib/promscrape/discovery/consul/api.go\<close>.
  Go's \<^verbatim>\<open>int64\<close> and \<^verbatim>\<open>time.Duration\<close> values are integers of the range
  \<open>- 2 ^ 63 \<le> x < 2 ^ 63\<close>; arithmetic on them wraps around, which is written out
  with \<open>wrap64\<close>. Strings and byte slices are \<open>string\<close>. A Go function returning
  \<^verbatim>\<open>(T, error)\<close> returns \<open>error + T\<close>, with \<open>Inl\<close> the error.
\<close>

subsection \<open>64-bit integers and durations\<close>

definition int64_range :: "int \<Rightarrow> bool" where
  "int64_range x \<longleftrightarrow> - (2 ^ 63) \<le> x \<and> x < 2 ^ 63"

definition wrap64 :: "int \<Rightarrow> int" where
  "wrap64 x = (x + 2 ^ 63) mod 2 ^ 64 - 2 ^ 63"

text \<open>Go's integer division \<^verbatim>\<open>a / b\<close> and remainder \<^verbatim>\<open>a % b\<close> truncate towards zero.\<close>

definition quo :: "int \<Rightarrow> int \<Rightarrow> int" where
  "quo a b = sgn a * sgn b * (\<bar>a\<bar> div \<bar>b\<bar>)"

definition rem :: "int \<Rightarrow> int \<Rightarrow> int" where
  "rem a b = a - b * quo a b"

text \<open>\<^verbatim>\<open>time.Second\<close> and \<^verbatim>\<open>time.Minute\<close>, in nanoseconds.\<close>

definition Second :: int where
  "Second = 1000000000"

definition Minute :: int where
  "Minute = 60 * Second"

text \<open>
  \<^verbatim>\<open>func (d Duration) Seconds() float64 { sec := d / Second; nsec := d % Second;
  return float64(sec) + float64(nsec)/1e9 }\<close>.
  The floating-point value is modelled by the exact rational it approximates. For a
  duration from 0 to 10 minutes, where \<^verbatim>\<open>maxWaitTime\<close> lies for a read timeout that
  is not negative, the rounding of \<^verbatim>\<open>float64\<close> is far too small to reach the next
  whole number, so that the whole seconds taken from it below are those of the rational.
\<close>

definition Seconds :: "int \<Rightarrow> rat" where
  "Seconds d =
     (let sec = quo d Second; nsec = rem d Second
      in of_int sec + of_int nsec / 1000000000)"

text \<open>The conversion \<^verbatim>\<open>int(x)\<close> of a floating-point value discards the fraction.\<close>

definition int_of_float :: "rat \<Rightarrow> int" where
  "int_of_float x = (if 0 \<le> x then \<lfloor>x\<rfloor> else \<lceil>x\<rceil>)"

subsection \<open>The Go library's \<^verbatim>\<open>strconv\<close>: decimal integers\<close>

datatype NumError = ErrSyntax | ErrRange

definition isDigit :: "char \<Rightarrow> bool" where
  "isDigit c \<longleftrightarrow> (48::nat) \<le> of_char c \<and> of_char c \<le> (57::nat)"

definition digitVal :: "char \<Rightarrow> nat" where
  "digitVal c = of_char c - 48"

definition digitChar :: "nat \<Rightarrow> char" where
  "digitChar d = char_of (48 + d)"

definition maxUint64 :: nat where
  "maxUint64 = 2 ^ 64 - 1"

text \<open>
  The loop of \<^verbatim>\<open>strconv.ParseUint(s, 10, 64)\<close> over the bytes of \<open>s\<close>, with the value
  read so far. A byte that is no decimal digit is a syntax error (base 10 admits neither
  letters nor underscores); \<open>n * 10\<close> overflows from \<open>maxUint64 div 10 + 1\<close> on, and
  the sum with the digit may overflow too: both are range errors.
\<close>

fun parseDigits :: "nat \<Rightarrow> string \<Rightarrow> NumError + nat" where
  "parseDigits n [] = Inr n"
| "parseDigits n (c # cs) =
     (if \<not> isDigit c then Inl ErrSyntax
      else if n \<ge> maxUint64 div 10 + 1 then Inl ErrRange
      else let n1 = n * 10 + digitVal c
           in if n1 > maxUint64 then Inl ErrRange else parseDigits n1 cs)"

definition ParseUint :: "string \<Rightarrow> NumError + nat" where
  "ParseUint s = (if s = [] then Inl ErrSyntax else parseDigits 0 s)"

text \<open>
  \<^verbatim>\<open>strconv.ParseInt(s, 10, 64)\<close>: an optional sign, then \<^verbatim>\<open>ParseUint\<close>; the
  magnitude must fit the sign's half of the 64-bit range.
\<close>

definition ParseInt :: "string \<Rightarrow> NumError + int" where
  "ParseInt s =
     (case s of
        [] \<Rightarrow> Inl ErrSyntax
      | c # cs \<Rightarrow>
          (let neg = (c = CHR ''-'');
               s1 = (if c = CHR ''+'' \<or> c = CHR ''-'' then cs else s)
           in case ParseUint s1 of
                Inl e \<Rightarrow> Inl e
              | Inr un \<Rightarrow>
                  if \<not> neg \<and> un \<ge> 2 ^ 63 then Inl ErrRange
                  else if neg \<and> un > 2 ^ 63 then Inl ErrRange
                  else Inr (if neg then - int un else int un)))"

text \<open>
  \<^verbatim>\<open>strconv.FormatInt(i, 10)\<close>, which is also what the verb \<^verbatim>\<open>%d\<close> of
  \<^verbatim>\<open>fmt.Sprintf\<close> prints: the decimal digits of the magnitude, most significant
  first, after a minus sign for a negative number.
\<close>

function formatBits :: "nat \<Rightarrow> string" where
  "formatBits u =
     (if u < 10 then [digitChar u]
      else formatBits (u div 10) @ [digitChar (u mod 10)])"
  by pat_completeness auto
termination
  by (relation "measure (\<lambda>u. u)") auto

declare formatBits.simps [simp del]

definition FormatInt :: "int \<Rightarrow> string" where
  "FormatInt i = (if i < 0 then CHR ''-'' # formatBits (nat (- i)) else formatBits (nat i))"

text \<open>\<^verbatim>\<open>strings.Contains(s, substr)\<close>.\<close>

fun hasPrefix :: "string \<Rightarrow> string \<Rightarrow> bool" where
  "hasPrefix s [] = True"
| "hasPrefix [] (p # ps) = False"
| "hasPrefix (c # cs) (p # ps) = (c = p \<and> hasPrefix cs ps)"

fun Contains :: "string \<Rightarrow> string \<Rightarrow> bool" where
  "Contains [] substr = (substr = [])"
| "Contains (c # cs) substr = (hasPrefix (c # cs) substr \<or> Contains cs substr)"

subsection \<open>Errors, the descriptor and the outside world\<close>

text \<open>
  A Go error is either one handed back by a collaborator (its message), or one of the
  errors built in this file with \<^verbatim>\<open>fmt.Errorf\<close>: the constructor stands for the format
  string, its arguments for the values of \<^verbatim>\<open>%q\<close> and the wrapped error of \<^verbatim>\<open>%w\<close>.
\<close>

datatype error =
    Err string
  | CannotReadTokenFile string error
  | CannotParseAuthConfig error
  | CannotParseProxyAuthConfig error
  | CannotCreateHTTPClient string error
  | CannotQueryAgentInfo error
  | CannotPerformBlockingRequest string error

text \<open>
  The fields of \<^verbatim>\<open>SDConfig\<close> that \<^verbatim>\<open>api.go\<close> reads. \<open>Token\<close> and
  \<open>TagSeparator\<close> are pointers to strings: \<open>None\<close> is \<^verbatim>\<open>nil\<close>. The TLS and proxy
  settings are only handed on to collaborators, so their types are left open.
\<close>

record ('tls, 'pcc, 'purl) SDConfig =
  Server :: string
  Token :: "string option"
  Datacenter :: string
  Scheme :: string
  Username :: string
  Password :: string
  ProxyURL :: 'purl
  ProxyClientConfig :: 'pcc
  TLSConfig :: 'tls
  TagSeparator :: "string option"

datatype BasicAuthConfig = BasicAuthConfig (ba_Username: string) (ba_Password: string)

text \<open>\<^verbatim>\<open>apiConfig\<close>; the watcher is an object of the collaborator that creates it.\<close>

record 'cw apiConfig =
  tagSeparator :: string
  consulWatcher :: 'cw

text \<open>The process environment and the file system, as \<^verbatim>\<open>getToken\<close> reads them.\<close>

record os =
  Getenv :: "string \<Rightarrow> string"
  ReadFile :: "string \<Rightarrow> error + string"

text \<open>
  The package variable \<^verbatim>\<open>discoveryutils.BlockingClientReadTimeout\<close> and the value of
  the flag \<^verbatim>\<open>-promscrape.consul.waitTime\<close>, both durations.
\<close>

record globals =
  BlockingClientReadTimeout :: int
  waitTime :: int

text \<open>
  A \<^verbatim>\<open>fasthttp.Response\<close>, as far as it is read here: its header lines, each a name
  (in the spelling under which \<^verbatim>\<open>Peek\<close> finds it) and a value.
\<close>

record Response =
  Header :: "(string \<times> string) list"

text \<open>\<^verbatim>\<open>resp.Header.Peek(key)\<close>: the value of the header, empty when it is absent.\<close>

definition Peek :: "Response \<Rightarrow> string \<Rightarrow> string" where
  "Peek resp key = (case map_of (Header resp) key of None \<Rightarrow> [] | Some v \<Rightarrow> v)"

text \<open>
  Modelled from the spec: \<^verbatim>\<open>discoveryutils.Client.GetBlockingAPIResponse\<close>, which is not
  part of \<^verbatim>\<open>api.go\<close>. One call \<^verbatim>\<open>client.GetBlockingAPIResponse(path, getMeta)\<close>
  issues one HTTP request, hands the response, if it got one, to the callback, and
  returns the body or an error (a failed request, a status other than success). Which
  response and which result is left open.
\<close>

record BlockingOutcome =
  inspected :: "Response option"
  returned :: "error + string"

record AgentConfig =
  agent_Datacenter :: string

record Agent =
  Config :: AgentConfig

text \<open>
  The collaborators of \<^verbatim>\<open>api.go\<close> whose code lies outside it
  (\<^verbatim>\<open>promauth.NewConfig\<close>, \<^verbatim>\<open>ProxyClientConfig.NewConfig\<close>,
  \<^verbatim>\<open>discoveryutils.NewClient\<close>, the client's \<^verbatim>\<open>GetAPIResponse\<close> and
  \<^verbatim>\<open>GetBlockingAPIResponse\<close>, \<^verbatim>\<open>parseAgent\<close> and \<^verbatim>\<open>newConsulWatcher\<close>)
  are parameters: each may be any function of its arguments, and so may the types of the
  objects they make. Of the arguments of \<^verbatim>\<open>promauth.NewConfig(baseDir, nil, ba, token,
  "", nil, sdc.TLSConfig)\<close> the constant ones are left out.
\<close>

record ('tls, 'pcc, 'purl, 'ac, 'cl, 'cw) collaborators =
  promauth_NewConfig :: "string \<Rightarrow> BasicAuthConfig option \<Rightarrow> string \<Rightarrow> 'tls \<Rightarrow> error + 'ac"
  proxy_NewConfig :: "'pcc \<Rightarrow> string \<Rightarrow> error + 'ac"
  discoveryutils_NewClient :: "string \<Rightarrow> 'ac \<Rightarrow> 'purl \<Rightarrow> 'ac \<Rightarrow> error + 'cl"
  client_GetAPIResponse :: "'cl \<Rightarrow> string \<Rightarrow> error + string"
  client_GetBlockingAPIResponse :: "'cl \<Rightarrow> string \<Rightarrow> BlockingOutcome"
  parseAgent :: "string \<Rightarrow> error + Agent"
  newConsulWatcher :: "'cl \<Rightarrow> ('tls, 'pcc, 'purl) SDConfig \<Rightarrow> string \<Rightarrow> 'cw"

text \<open>
  The calls a function makes to its collaborators are its effects: each function returns
  them, in order, beside its result.
\<close>

datatype call =
    Call_promauth_NewConfig string "BasicAuthConfig option" string
  | Call_proxy_NewConfig string
  | Call_NewClient string
  | Call_GetAPIResponse string
  | Call_GetBlockingAPIResponse string
  | Call_newConsulWatcher string

subsection \<open>The functions of \<^verbatim>\<open>api.go\<close>\<close>

definition getToken :: "os \<Rightarrow> string option \<Rightarrow> error + string" where
  "getToken env token =
     (case token of
        Some t \<Rightarrow> Inr t
      | None \<Rightarrow>
          (let tokenFile = Getenv env ''CONSUL_HTTP_TOKEN_FILE''
           in if tokenFile \<noteq> []
              then (case ReadFile env tokenFile of
                      Inl err \<Rightarrow> Inl (CannotReadTokenFile tokenFile err)
                    | Inr data \<Rightarrow> Inr data)
              else Inr (Getenv env ''CONSUL_HTTP_TOKEN'')))"

definition getDatacenter ::
  "('tls, 'pcc, 'purl, 'ac, 'cl, 'cw) collaborators \<Rightarrow> 'cl \<Rightarrow> string
     \<Rightarrow> (error + string) \<times> call list" where
  "getDatacenter co client dc =
     (if dc \<noteq> [] then (Inr dc, [])
      else (case client_GetAPIResponse co client ''/v1/agent/self'' of
              Inl err \<Rightarrow> (Inl (CannotQueryAgentInfo err), [Call_GetAPIResponse ''/v1/agent/self''])
            | Inr data \<Rightarrow>
                (case parseAgent co data of
                   Inl err \<Rightarrow> (Inl err, [Call_GetAPIResponse ''/v1/agent/self''])
                 | Inr a \<Rightarrow>
                     (Inr (agent_Datacenter (Config a)),
                      [Call_GetAPIResponse ''/v1/agent/self'']))))"

definition newAPIConfig ::
  "os \<Rightarrow> ('tls, 'pcc, 'purl, 'ac, 'cl, 'cw) collaborators \<Rightarrow> ('tls, 'pcc, 'purl) SDConfig
     \<Rightarrow> string \<Rightarrow> (error + 'cw apiConfig) \<times> call list" where
  "newAPIConfig env co sdc baseDir =
     (case getToken env (Token sdc) of
        Inl err \<Rightarrow> (Inl err, [])
      | Inr token0 \<Rightarrow>
          (let ba = (if length (Username sdc) > 0
                     then Some (BasicAuthConfig (Username sdc) (Password sdc)) else None);
               token = (if length (Username sdc) > 0 then [] else token0);
               calls1 = [Call_promauth_NewConfig baseDir ba token]
           in case promauth_NewConfig co baseDir ba token (TLSConfig sdc) of
                Inl err \<Rightarrow> (Inl (CannotParseAuthConfig err), calls1)
              | Inr ac \<Rightarrow>
                  (let apiServer = Server sdc;
                       apiServer = (if apiServer = [] then ''localhost:8500'' else apiServer);
                       apiServer =
                         (if \<not> Contains apiServer ''://''
                          then (let scheme = Scheme sdc;
                                    scheme = (if scheme = [] then ''http'' else scheme)
                                in scheme @ ''://'' @ apiServer)
                          else apiServer);
                       calls2 = calls1 @ [Call_proxy_NewConfig baseDir]
                   in case proxy_NewConfig co (ProxyClientConfig sdc) baseDir of
                        Inl err \<Rightarrow> (Inl (CannotParseProxyAuthConfig err), calls2)
                      | Inr proxyAC \<Rightarrow>
                          (let calls3 = calls2 @ [Call_NewClient apiServer]
                           in case discoveryutils_NewClient co apiServer ac (ProxyURL sdc) proxyAC of
                                Inl err \<Rightarrow> (Inl (CannotCreateHTTPClient apiServer err), calls3)
                              | Inr client \<Rightarrow>
                                  (let tagSep = (case TagSeparator sdc of
                                                   None \<Rightarrow> '',''
                                                 | Some sep \<Rightarrow> sep);
                                       (r, calls_dc) = getDatacenter co client (Datacenter sdc);
                                       calls4 = calls3 @ calls_dc
                                   in case r of
                                        Inl err \<Rightarrow> (Inl err, calls4)
                                      | Inr dc \<Rightarrow>
                                          (let cw = newConsulWatcher co client sdc dc;
                                               cfg = \<lparr>tagSeparator = tagSep, consulWatcher = cw\<rparr>
                                           in (Inr cfg, calls4 @ [Call_newConsulWatcher dc])))))))"

text \<open>\<^verbatim>\<open>maxWaitTime\<close>: the duration for a blocking request.\<close>

definition maxWaitTime :: "globals \<Rightarrow> int" where
  "maxWaitTime g =
     (let d = BlockingClientReadTimeout g;
          d = wrap64 (d - quo d 8);
          d = (if d > 10 * Minute then 10 * Minute else d);
          d = (if waitTime g > Second \<and> waitTime g < d then waitTime g else d)
      in d)"

text \<open>
  The callback \<^verbatim>\<open>getMeta\<close> of \<^verbatim>\<open>getBlockingAPIResponse\<close>. It assigns to the variable
  \<^verbatim>\<open>index\<close> of the enclosing function: here it takes the index and returns the new one.
  What it logs is not part of the model.
\<close>

definition getMeta :: "int \<Rightarrow> Response \<Rightarrow> int" where
  "getMeta index resp =
     (let ind = Peek resp ''X-Consul-Index''
      in if length ind = 0 then index
         else (case ParseInt ind of
                 Inl err \<Rightarrow> index
               | Inr newIndex \<Rightarrow>
                   if newIndex < 1 then 1
                   else if index > newIndex then 0
                   else newIndex))"

text \<open>
  \<^verbatim>\<open>getBlockingAPIResponse\<close> returns the body (\<^verbatim>\<open>nil\<close>, the empty string, beside an
  error), the index and the error (\<open>None\<close> is \<^verbatim>\<open>nil\<close>); the fourth component is the
  calls it made.
\<close>

definition getBlockingAPIResponse ::
  "globals \<Rightarrow> ('tls, 'pcc, 'purl, 'ac, 'cl, 'cw) collaborators \<Rightarrow> 'cl \<Rightarrow> string \<Rightarrow> int
     \<Rightarrow> string \<times> int \<times> error option \<times> call list" where
  "getBlockingAPIResponse g co client path index =
     (let path = path @ ''&index='' @ FormatInt index;
          path = path @ ''&wait='' @ FormatInt (int_of_float (Seconds (maxWaitTime g))) @ ''s'';
          out = client_GetBlockingAPIResponse co client path;
          index = (case inspected out of None \<Rightarrow> index | Some resp \<Rightarrow> getMeta index resp);
          calls = [Call_GetBlockingAPIResponse path]
      in case returned out of
           Inl err \<Rightarrow> ([], index, Some (CannotPerformBlockingRequest path err), calls)
         | Inr data \<Rightarrow> (data, index, None, calls))"

subsection \<open>Statements of the specification, and example inputs\<close>

text \<open>
  The specification speaks of a header value that parses as a non-negative 64-bit
  integer: a value that \<open>ParseInt\<close> accepts, with a result that is not negative.
\<close>

definition spec_parsesNonNegative :: "string \<Rightarrow> bool" where
  "spec_parsesNonNegative s = (case ParseInt s of Inl e \<Rightarrow> False | Inr n \<Rightarrow> 0 \<le> n)"

text \<open>
  The server address as the specification normalises it: the address, or
  \<open>localhost:8500\<close> for an empty one, is kept when it holds \<open>://\<close>, and else gets the
  scheme (\<open>http\<close> for an empty one) and \<open>://\<close> in front.
\<close>

definition spec_normalizedServer :: "string \<Rightarrow> string \<Rightarrow> string" where
  "spec_normalizedServer scheme server =
     (if server = [] then (if scheme = [] then ''http'' else scheme) @ ''://localhost:8500''
      else if Contains server ''://'' then server
      else (if scheme = [] then ''http'' else scheme) @ ''://'' @ server)"

text \<open>
  Example inputs: a read timeout of 20 minutes with a wait time of 5 seconds;
  collaborators that all succeed, the registry answering every blocking query with the
  given header lines, or with the given value of \<open>X-Consul-Index\<close> alone, and naming
  its datacenter \<open>dc1\<close>; an environment
  whose token file cannot be read; a descriptor with nothing but a server.
\<close>

definition exampleGlobals :: globals where
  "exampleGlobals = \<lparr>BlockingClientReadTimeout = 20 * Minute, waitTime = 5 * Second\<rparr>"

definition exampleRegistry ::
  "(string \<times> string) list \<Rightarrow> (unit, unit, unit, unit, unit, string) collaborators" where
  "exampleRegistry hdrs =
     \<lparr>promauth_NewConfig = (\<lambda>baseDir ba token tls. Inr ()),
      proxy_NewConfig = (\<lambda>pcc baseDir. Inr ()),
      discoveryutils_NewClient = (\<lambda>apiServer ac proxyURL proxyAC. Inr ()),
      client_GetAPIResponse = (\<lambda>client path. Inr ''{}''),
      client_GetBlockingAPIResponse =
        (\<lambda>client path. \<lparr>inspected = Some \<lparr>Header = hdrs\<rparr>, returned = Inr ''[]''\<rparr>),
      parseAgent = (\<lambda>data. Inr \<lparr>Config = \<lparr>agent_Datacenter = ''dc1''\<rparr>\<rparr>),
      newConsulWatcher = (\<lambda>client sdc dc. dc)\<rparr>"

definition exampleCollaborators ::
  "string \<Rightarrow> (unit, unit, unit, unit, unit, string) collaborators" where
  "exampleCollaborators ind = exampleRegistry [(''X-Consul-Index'', ind)]"

definition exampleOs :: os where
  "exampleOs =
     \<lparr>Getenv = (\<lambda>key. if key = ''CONSUL_HTTP_TOKEN_FILE'' then ''/etc/consul.token''
                       else if key = ''CONSUL_HTTP_TOKEN'' then ''envtoken'' else []),
      ReadFile = (\<lambda>file. Inl (Err ''no such file or directory''))\<rparr>"

definition exampleSDConfig :: "(unit, unit, unit) SDConfig" where
  "exampleSDConfig =
     \<lparr>Server = ''localhost:8500'', Token = Some ''abc'', Datacenter = [], Scheme = [],
      Username = [], Password = [], ProxyURL = (), ProxyClientConfig = (), TLSConfig = (),
      TagSeparator = None\<rparr>"

section \<open>Properties\<close>

subsection \<open>Integers and durations\<close>

lemma wrap64_id: "int64_range x \<Longrightarrow> wrap64 x = x"
  by (simp add: int64_range_def wrap64_def)

lemma quo_nonneg: "0 \<le> a \<Longrightarrow> 0 < b \<Longrightarrow> quo a b = a div b"
  by (cases "a = 0") (simp_all add: quo_def)

lemma quo_neg: "a < 0 \<Longrightarrow> 0 < b \<Longrightarrow> quo a b = - ((- a) div b)"
  by (simp add: quo_def)

lemma sub_quo8_bounds:
  "(0 \<le> d \<longrightarrow> 0 \<le> d - quo d 8 \<and> d - quo d 8 \<le> d) \<and>
   (d < 0 \<longrightarrow> d \<le> d - quo d 8 \<and> d - quo d 8 < 0)"
proof (cases "0 \<le> d")
  case True
  then have "quo d 8 = d div 8" by (simp add: quo_nonneg)
  with True show ?thesis by presburger
next
  case False
  then have q: "quo d 8 = - ((- d) div 8)" by (simp add: quo_neg)
  with False show ?thesis by presburger
qed

lemma sub_quo8_range: "int64_range d \<Longrightarrow> int64_range (d - quo d 8)"
  using sub_quo8_bounds [of d] by (auto simp: int64_range_def)

lemma rem_bounds_nonneg: "0 \<le> a \<Longrightarrow> 0 < b \<Longrightarrow> rem a b = a mod b"
  by (simp add: rem_def quo_nonneg minus_mult_div_eq_mod)

lemma int_of_float_Seconds: "int_of_float (Seconds d) = quo d Second"
proof (cases "0 \<le> d")
  case True
  have q: "quo d Second = d div 1000000000" using True by (simp add: quo_nonneg Second_def)
  have r: "rem d Second = d mod 1000000000" using True by (simp add: rem_bounds_nonneg Second_def)
  have r0: "0 \<le> d mod 1000000000" and r1: "d mod 1000000000 < 1000000000" by simp_all
  define f :: rat where "f = of_int (d mod 1000000000) / 1000000000"
  have f0: "0 \<le> f" and f1: "f < 1" using r0 r1 by (simp_all add: f_def)
  have S: "Seconds d = of_int (d div 1000000000) + f"
    by (simp add: Seconds_def q r f_def)
  have "0 \<le> d div 1000000000" using True by simp
  then have nn: "0 \<le> Seconds d" using f0 by (simp add: S)
  have "\<lfloor>of_int (d div 1000000000) + f\<rfloor> = d div 1000000000"
    using f0 f1 by (simp add: floor_unique)
  with nn show ?thesis by (simp add: int_of_float_def S q)
next
  case False
  then have neg: "d < 0" by simp
  define e where "e = - d"
  have e: "0 < e" "d = - e" using neg by (simp_all add: e_def)
  have q: "quo d Second = - (e div 1000000000)"
    using neg quo_neg [of d 1000000000] by (simp add: Second_def e_def)
  have "rem d Second = d - 1000000000 * (- (e div 1000000000))"
    unfolding rem_def q by (simp add: Second_def)
  also have "\<dots> = - (e - 1000000000 * (e div 1000000000))" by (simp add: e_def)
  also have "\<dots> = - (e mod 1000000000)" by (simp only: minus_mult_div_eq_mod)
  finally have r: "rem d Second = - (e mod 1000000000)" .
  have r0: "0 \<le> e mod 1000000000" and r1: "e mod 1000000000 < 1000000000" by simp_all
  define f :: rat where "f = of_int (e mod 1000000000) / 1000000000"
  have f0: "0 \<le> f" and f1: "f < 1" using r0 r1 by (simp_all add: f_def)
  have S: "Seconds d = - (of_int (e div 1000000000) + f)"
    by (simp add: Seconds_def q r f_def)
  have q0: "0 \<le> e div 1000000000" using e by simp
  have c: "\<lceil>- (of_int (e div 1000000000) + f)\<rceil> = - (e div 1000000000)"
    using f0 f1 by (simp add: ceiling_def floor_unique)
  have fl: "\<lfloor>of_int (e div 1000000000) + f\<rfloor> = e div 1000000000"
    using f0 f1 by (simp add: floor_unique)
  show ?thesis
  proof (cases "0 \<le> Seconds d")
    case True
    then have "of_int (e div 1000000000) + f \<le> 0" by (simp add: S)
    moreover have "0 \<le> (of_int (e div 1000000000) :: rat)" using q0 by simp
    ultimately have "f = 0" "(of_int (e div 1000000000) :: rat) = 0" using f0 by linarith+
    then show ?thesis using True by (simp add: int_of_float_def S q)
  next
    case False
    then show ?thesis using c by (simp add: int_of_float_def S q)
  qed
qed




subsection \<open>Decimal integers: parsing what was formatted\<close>











subsection \<open>The wait time and the request of a blocking query\<close>



lemma getBlockingAPIResponse_result:
  assumes "getBlockingAPIResponse g co client path i = (data, i', err, [Call_GetBlockingAPIResponse p])"
  shows "i' = (case inspected (client_GetBlockingAPIResponse co client p) of
                 None \<Rightarrow> i | Some resp \<Rightarrow> getMeta i resp)"
    and "(data, err) = (case returned (client_GetBlockingAPIResponse co client p) of
                 Inl e \<Rightarrow> ([], Some (CannotPerformBlockingRequest p e)) | Inr body \<Rightarrow> (body, None))"
  using assms by (auto simp: getBlockingAPIResponse_def Let_def split: sum.splits)

lemma example_maxWaitTime: "maxWaitTime exampleGlobals = 5000000000"
  by (simp add: exampleGlobals_def maxWaitTime_def wrap64_def quo_def Minute_def Second_def)

lemma example_registry_request:
  "getBlockingAPIResponse exampleGlobals (exampleRegistry hdrs) () ''/v1/catalog/services?dc=dc1'' 7 =
     (''[]'', getMeta 7 \<lparr>Header = hdrs\<rparr>, None,
      [Call_GetBlockingAPIResponse ''/v1/catalog/services?dc=dc1&index=7&wait=5s''])"
  by (simp add: getBlockingAPIResponse_def Let_def exampleRegistry_def example_maxWaitTime
      int_of_float_Seconds quo_def Second_def
      FormatInt_def formatBits.simps digitChar_def char_of_def bit_0)

lemma example_request:
  "getBlockingAPIResponse exampleGlobals (exampleCollaborators ind) () ''/v1/catalog/services?dc=dc1'' 7 =
     (''[]'', getMeta 7 \<lparr>Header = [(''X-Consul-Index'', ind)]\<rparr>, None,
      [Call_GetBlockingAPIResponse ''/v1/catalog/services?dc=dc1&index=7&wait=5s''])"
  by (simp add: exampleCollaborators_def example_registry_request)

lemma example_inspected:
  "inspected (client_GetBlockingAPIResponse (exampleRegistry hdrs) () p) = Some \<lparr>Header = hdrs\<rparr>"
  "inspected (client_GetBlockingAPIResponse (exampleCollaborators ind) () p) =
     Some \<lparr>Header = [(''X-Consul-Index'', ind)]\<rparr>"
  by (simp_all add: exampleCollaborators_def exampleRegistry_def)

lemma example_ParseInt:
  "ParseInt ''42'' = Inr 42" "ParseInt ''-5'' = Inr (- 5)" "ParseInt ''4x'' = Inl ErrSyntax"
  "ParseInt ''0'' = Inr 0" "ParseInt ''5'' = Inr 5"
  "ParseInt ''9223372036854775808'' = Inl ErrRange"
  by (simp_all add: ParseInt_def ParseUint_def isDigit_def digitVal_def maxUint64_def)

subsection \<open>The configuration builder, unfolded\<close>

text \<open>
  \<open>Contains\<close> holds exactly when the string has the substring somewhere; the address
  computed by \<^verbatim>\<open>newAPIConfig\<close> is \<open>spec_normalizedServer\<close>; and the builder is a
  chain of steps, each of which ends the build when it fails.
\<close>

lemma hasPrefix_iff: "hasPrefix s p \<longleftrightarrow> (\<exists>q. s = p @ q)"
  by (induction s p rule: hasPrefix.induct) auto

lemma Contains_iff: "Contains s sub \<longleftrightarrow> (\<exists>p q. s = p @ sub @ q)"
proof (induction s)
  case Nil
  then show ?case by auto
next
  case (Cons c cs)
  show ?case
  proof
    assume "Contains (c # cs) sub"
    then consider "hasPrefix (c # cs) sub" | "Contains cs sub" by auto
    then show "\<exists>p q. c # cs = p @ sub @ q"
    proof cases
      case 1
      then obtain q where "c # cs = sub @ q" by (auto simp: hasPrefix_iff)
      then have "c # cs = [] @ sub @ q" by simp
      then show ?thesis by blast
    next
      case 2
      then obtain p q where "cs = p @ sub @ q" using Cons.IH by blast
      then have "c # cs = (c # p) @ sub @ q" by simp
      then show ?thesis by blast
    qed
  next
    assume "\<exists>p q. c # cs = p @ sub @ q"
    then obtain p q where e: "c # cs = p @ sub @ q" by blast
    show "Contains (c # cs) sub"
    proof (cases p)
      case Nil
      with e have "hasPrefix (c # cs) sub" by (auto simp: hasPrefix_iff)
      then show ?thesis by simp
    next
      case (Cons a p')
      with e have "cs = p' @ sub @ q" by simp
      then have "Contains cs sub" using Cons.IH by blast
      then show ?thesis by simp
    qed
  qed
qed

lemma normalized_server:
  "(let apiServer = server;
        apiServer = (if apiServer = [] then ''localhost:8500'' else apiServer)
    in if \<not> Contains apiServer ''://''
       then (let scheme0 = scheme; scheme1 = (if scheme0 = [] then ''http'' else scheme0)
             in scheme1 @ ''://'' @ apiServer)
       else apiServer) = spec_normalizedServer scheme server"
  by (simp add: spec_normalizedServer_def Let_def)

lemma newAPIConfig_unfold:
  "newAPIConfig env co sdc baseDir =
     (case getToken env (Token sdc) of
        Inl err \<Rightarrow> (Inl err, [])
      | Inr token0 \<Rightarrow>
          (case promauth_NewConfig co baseDir
                  (if Username sdc = [] then None
                   else Some (BasicAuthConfig (Username sdc) (Password sdc)))
                  (if Username sdc = [] then token0 else []) (TLSConfig sdc) of
             Inl err \<Rightarrow>
               (Inl (CannotParseAuthConfig err),
                [Call_promauth_NewConfig baseDir
                   (if Username sdc = [] then None
                    else Some (BasicAuthConfig (Username sdc) (Password sdc)))
                   (if Username sdc = [] then token0 else [])])
           | Inr ac \<Rightarrow>
               (case proxy_NewConfig co (ProxyClientConfig sdc) baseDir of
                  Inl err \<Rightarrow>
                    (Inl (CannotParseProxyAuthConfig err),
                     [Call_promauth_NewConfig baseDir
                        (if Username sdc = [] then None
                         else Some (BasicAuthConfig (Username sdc) (Password sdc)))
                        (if Username sdc = [] then token0 else []),
                      Call_proxy_NewConfig baseDir])
                | Inr proxyAC \<Rightarrow>
                    (case discoveryutils_NewClient co
                            (spec_normalizedServer (Scheme sdc) (Server sdc)) ac
                            (ProxyURL sdc) proxyAC of
                       Inl err \<Rightarrow>
                         (Inl (CannotCreateHTTPClient
                                 (spec_normalizedServer (Scheme sdc) (Server sdc)) err),
                          [Call_promauth_NewConfig baseDir
                             (if Username sdc = [] then None
                              else Some (BasicAuthConfig (Username sdc) (Password sdc)))
                             (if Username sdc = [] then token0 else []),
                           Call_proxy_NewConfig baseDir,
                           Call_NewClient (spec_normalizedServer (Scheme sdc) (Server sdc))])
                     | Inr client \<Rightarrow>
                         (case fst (getDatacenter co client (Datacenter sdc)) of
                            Inl err \<Rightarrow>
                              (Inl err,
                               [Call_promauth_NewConfig baseDir
                                  (if Username sdc = [] then None
                                   else Some (BasicAuthConfig (Username sdc) (Password sdc)))
                                  (if Username sdc = [] then token0 else []),
                                Call_proxy_NewConfig baseDir,
                                Call_NewClient (spec_normalizedServer (Scheme sdc) (Server sdc))]
                               @ snd (getDatacenter co client (Datacenter sdc)))
                          | Inr dc \<Rightarrow>
                              (Inr \<lparr>tagSeparator =
                                      (case TagSeparator sdc of None \<Rightarrow> '','' | Some sep \<Rightarrow> sep),
                                    consulWatcher = newConsulWatcher co client sdc dc\<rparr>,
                               [Call_promauth_NewConfig baseDir
                                  (if Username sdc = [] then None
                                   else Some (BasicAuthConfig (Username sdc) (Password sdc)))
                                  (if Username sdc = [] then token0 else []),
                                Call_proxy_NewConfig baseDir,
                                Call_NewClient (spec_normalizedServer (Scheme sdc) (Server sdc))]
                               @ snd (getDatacenter co client (Datacenter sdc))
                               @ [Call_newConsulWatcher dc]))))))"
  unfolding newAPIConfig_def Let_def normalized_server [unfolded Let_def] case_prod_beta
  by (cases "Username sdc = []") (simp_all split: sum.splits)

lemma getDatacenter_explicit: "dc \<noteq> [] \<Longrightarrow> getDatacenter co client dc = (Inr dc, [])"
  by (simp add: getDatacenter_def)

lemma getDatacenter_query:
  "getDatacenter co client [] =
     (case client_GetAPIResponse co client ''/v1/agent/self'' of
        Inl err \<Rightarrow> Inl (CannotQueryAgentInfo err)
      | Inr data \<Rightarrow>
          (case parseAgent co data of
             Inl err \<Rightarrow> Inl err
           | Inr a \<Rightarrow> Inr (agent_Datacenter (Config a))),
      [Call_GetAPIResponse ''/v1/agent/self''])"
  by (simp add: getDatacenter_def split: sum.splits)

lemma example_getToken:
  "getToken exampleOs (Token exampleSDConfig) = Inr ''abc''"
  by (simp add: getToken_def exampleSDConfig_def)

lemma example_normalized:
  "spec_normalizedServer [] ''localhost:8500'' = ''http://localhost:8500''"
  "spec_normalizedServer ''https'' [] = ''https://localhost:8500''"
  "spec_normalizedServer [] ''https://consul.internal'' = ''https://consul.internal''"
  by (simp_all add: spec_normalizedServer_def)

lemma example_build:
  "newAPIConfig exampleOs (exampleCollaborators ind) exampleSDConfig ''.'' =
     (Inr \<lparr>tagSeparator = '','', consulWatcher = ''dc1''\<rparr>,
      [Call_promauth_NewConfig ''.'' None ''abc'', Call_proxy_NewConfig ''.'',
       Call_NewClient ''http://localhost:8500'', Call_GetAPIResponse ''/v1/agent/self'',
       Call_newConsulWatcher ''dc1''])"
  by (simp add: newAPIConfig_unfold getToken_def exampleSDConfig_def exampleCollaborators_def exampleRegistry_def
      getDatacenter_query example_normalized)

text \<open>
  In every build, also one that ends early, the endpoint \<open>/v1/agent/self\<close> is queried
  at most once, and no endpoint is queried when the descriptor names a datacenter.
\<close>

lemma explicit_datacenter_no_query:
  "Datacenter sdc \<noteq> [] \<Longrightarrow> Call_GetAPIResponse p \<notin> set (snd (newAPIConfig env co sdc baseDir))"
  by (auto simp: newAPIConfig_unfold getDatacenter_explicit split: sum.splits)

lemma self_describe_at_most_once:
  "count_list (snd (newAPIConfig env co sdc baseDir)) (Call_GetAPIResponse ''/v1/agent/self'') \<le> 1"
  by (cases "Datacenter sdc = []")
     (auto simp: newAPIConfig_unfold getDatacenter_explicit getDatacenter_query split: sum.splits)

section \<open>The claims\<close>

text \<open>
  Claim C1 (index correction). When the blocking client hands a response to the callback
  and the value of its header \<open>X-Consul-Index\<close> parses to \<open>n\<close>, the index that
  \<^verbatim>\<open>getBlockingAPIResponse\<close> returns for the prior index \<open>i\<close> is 1 if \<open>n < 1\<close>,
  else 0 if \<open>i > n\<close>, else \<open>n\<close>. This holds for every prior index, the non-negative
  ones among them.
\<close>

theorem index_correction:
  assumes "getBlockingAPIResponse g co client path i = (data, i', err, [Call_GetBlockingAPIResponse p])"
    and "inspected (client_GetBlockingAPIResponse co client p) = Some resp"
    and "ParseInt (Peek resp ''X-Consul-Index'') = Inr n"
  shows "i' = (if n < 1 then 1 else if i > n then 0 else n)"
proof -
  have ne: "Peek resp ''X-Consul-Index'' \<noteq> []"
    using assms(3) by (auto simp: ParseInt_def)
  have "i' = getMeta i resp"
    using getBlockingAPIResponse_result(1) [OF assms(1)] assms(2) by simp
  then show ?thesis using ne assms(3) by (simp add: getMeta_def Let_def)
qed

text \<open>
  The rule at work: for the prior index 7, the header value 42 gives the index 42, the
  value 5 gives 0, and the value 0 gives 1.
\<close>

theorem index_correction_witness:
  "getBlockingAPIResponse exampleGlobals (exampleCollaborators ''42'') ()
       ''/v1/catalog/services?dc=dc1'' 7 =
     (''[]'', 42, None, [Call_GetBlockingAPIResponse ''/v1/catalog/services?dc=dc1&index=7&wait=5s''])
   \<and> getBlockingAPIResponse exampleGlobals (exampleCollaborators ''5'') ()
       ''/v1/catalog/services?dc=dc1'' 7 =
     (''[]'', 0, None, [Call_GetBlockingAPIResponse ''/v1/catalog/services?dc=dc1&index=7&wait=5s''])
   \<and> getBlockingAPIResponse exampleGlobals (exampleCollaborators ''0'') ()
       ''/v1/catalog/services?dc=dc1'' 7 =
     (''[]'', 1, None, [Call_GetBlockingAPIResponse ''/v1/catalog/services?dc=dc1&index=7&wait=5s''])"
proof -
  let ?p = "''/v1/catalog/services?dc=dc1&index=7&wait=5s''"
  have a: "getMeta 7 \<lparr>Header = [(''X-Consul-Index'', ''42'')]\<rparr> = 42"
    using index_correction [OF example_request example_inspected(2), of "''42''" 42]
    by (simp add: Peek_def example_ParseInt)
  have b: "getMeta 7 \<lparr>Header = [(''X-Consul-Index'', ''5'')]\<rparr> = 0"
    using index_correction [OF example_request example_inspected(2), of "''5''" 5]
    by (simp add: Peek_def example_ParseInt)
  have c: "getMeta 7 \<lparr>Header = [(''X-Consul-Index'', ''0'')]\<rparr> = 1"
    using index_correction [OF example_request example_inspected(2), of "''0''" 0]
    by (simp add: Peek_def example_ParseInt)
  show ?thesis by (simp add: example_request a b c)
qed

text \<open>
  Claim C2 (protocol-anomaly tolerance), as amended. When the header
  \<open>X-Consul-Index\<close> of the response is absent or empty, or its value is not accepted by
  \<^verbatim>\<open>strconv.ParseInt\<close> as a signed decimal 64-bit integer, the index is returned
  unchanged, and the body and the error returned are those of the client alone: the
  anomaly adds no error. A value that parses to a negative number is no anomaly; the rule
  for \<open>n < 1\<close> of claim C1 applies to it.
\<close>

theorem anomaly_tolerance:
  assumes "getBlockingAPIResponse g co client path i = (data, i', err, [Call_GetBlockingAPIResponse p])"
    and "inspected (client_GetBlockingAPIResponse co client p) = Some resp"
    and "Peek resp ''X-Consul-Index'' = [] \<or> ParseInt (Peek resp ''X-Consul-Index'') = Inl e"
  shows "i' = i \<and>
         (data, err) = (case returned (client_GetBlockingAPIResponse co client p) of
                          Inl e' \<Rightarrow> ([], Some (CannotPerformBlockingRequest p e'))
                        | Inr body \<Rightarrow> (body, None))"
proof -
  have "getMeta i resp = i"
    using assms(3) by (auto simp: getMeta_def Let_def)
  then show ?thesis
    using getBlockingAPIResponse_result [OF assms(1)] assms(2) by simp
qed

text \<open>
  A header value that is no number, one beyond the 64-bit range, and a response without
  the header leave the index 7 as it is.
\<close>

theorem anomaly_tolerance_witness:
  "getBlockingAPIResponse exampleGlobals (exampleCollaborators ''4x'') ()
       ''/v1/catalog/services?dc=dc1'' 7 =
     (''[]'', 7, None, [Call_GetBlockingAPIResponse ''/v1/catalog/services?dc=dc1&index=7&wait=5s''])
   \<and> getBlockingAPIResponse exampleGlobals (exampleCollaborators ''9223372036854775808'') ()
       ''/v1/catalog/services?dc=dc1'' 7 =
     (''[]'', 7, None, [Call_GetBlockingAPIResponse ''/v1/catalog/services?dc=dc1&index=7&wait=5s''])
   \<and> getBlockingAPIResponse exampleGlobals (exampleRegistry [(''Content-Type'', ''application/json'')]) ()
       ''/v1/catalog/services?dc=dc1'' 7 =
     (''[]'', 7, None, [Call_GetBlockingAPIResponse ''/v1/catalog/services?dc=dc1&index=7&wait=5s''])"
proof -
  have a: "getMeta 7 \<lparr>Header = [(''X-Consul-Index'', ''4x'')]\<rparr> = 7"
    using anomaly_tolerance [OF example_request example_inspected(2), of "''4x''" ErrSyntax]
    by (simp add: Peek_def example_ParseInt)
  have b: "getMeta 7 \<lparr>Header = [(''X-Consul-Index'', ''9223372036854775808'')]\<rparr> = 7"
    using anomaly_tolerance [OF example_request example_inspected(2),
        of "''9223372036854775808''" ErrRange]
    by (simp add: Peek_def example_ParseInt)
  have c: "getMeta 7 \<lparr>Header = [(''Content-Type'', ''application/json'')]\<rparr> = 7"
    using anomaly_tolerance [OF example_registry_request example_inspected(1),
        of "[(''Content-Type'', ''application/json'')]"]
    by (simp add: Peek_def)
  show ?thesis by (simp add: example_request example_registry_request a b c)
qed

text \<open>
  Claim C2 as stated fails: the value \<open>-5\<close> does not parse as a non-negative
  integer, yet the prior index 7 is not kept: the index becomes 1.
\<close>

theorem anomaly_tolerance_counterexample:
  "\<not> spec_parsesNonNegative ''-5'' \<and>
   fst (snd (getBlockingAPIResponse exampleGlobals (exampleCollaborators ''-5'') ()
               ''/v1/catalog/services?dc=dc1'' 7)) = 1"
  by (simp add: spec_parsesNonNegative_def example_ParseInt example_request getMeta_def Peek_def)

text \<open>
  Claim C3 (wait-time calculation). For every read timeout \<open>C\<close> of the 64-bit range and
  every override \<open>w\<close>, \<^verbatim>\<open>maxWaitTime\<close> is \<open>w\<close> if \<open>w\<close> is more than one second
  and less than \<open>min (C - C / 8) (10 minutes)\<close>, and that minimum otherwise; the
  division is Go's, on integers. In particular \<open>C - C / 8\<close> never overflows.
\<close>

theorem maxWaitTime_spec:
  assumes "int64_range C"
  shows "maxWaitTime \<lparr>BlockingClientReadTimeout = C, waitTime = w\<rparr> =
           (if Second < w \<and> w < min (C - quo C 8) (10 * Minute) then w
            else min (C - quo C 8) (10 * Minute))"
proof -
  have "wrap64 (C - quo C 8) = C - quo C 8"
    using assms by (simp add: wrap64_id sub_quo8_range)
  then show ?thesis
    by (simp add: maxWaitTime_def Let_def min_def)
qed

text \<open>
  The examples of the specification: 20 minutes with an override of 5 seconds, 20
  minutes without override, and 10 seconds without override.
\<close>

theorem maxWaitTime_spec_witness:
  "int64_range (20 * Minute) \<and>
   maxWaitTime \<lparr>BlockingClientReadTimeout = 20 * Minute, waitTime = 5 * Second\<rparr> = 5 * Second \<and>
   maxWaitTime \<lparr>BlockingClientReadTimeout = 20 * Minute, waitTime = 0\<rparr> = 10 * Minute \<and>
   maxWaitTime \<lparr>BlockingClientReadTimeout = 10 * Second, waitTime = 0\<rparr> = 8750000000"
proof -
  have h: "int64_range (20 * Minute)" and h': "int64_range (10 * Second)"
    by (simp_all add: int64_range_def Minute_def Second_def)
  show ?thesis
    using h maxWaitTime_spec [OF h, of "5 * Second"] maxWaitTime_spec [OF h, of 0]
      maxWaitTime_spec [OF h', of 0]
    by (simp add: quo_def Minute_def Second_def)
qed

text \<open>
  Claim C4 (token precedence). An explicit token, the empty one too, is returned as it
  is and without error, whatever the environment and the file system hold.
\<close>

theorem explicit_token: "getToken env (Some t) = Inr t"
  by (simp add: getToken_def)

text \<open>
  The tokens \<open>abc\<close> and the empty one, in an environment that names a token file (an
  unreadable one) and a token.
\<close>

theorem explicit_token_witness:
  "getToken exampleOs (Some ''abc'') = Inr ''abc'' \<and> getToken exampleOs (Some []) = Inr []"
  using explicit_token [of exampleOs "''abc''"] explicit_token [of exampleOs "[]"] by simp

text \<open>
  Claim C5 (token-file failure is fatal). Without an explicit token, when
  \<open>CONSUL_HTTP_TOKEN_FILE\<close> names a file and reading it fails, \<^verbatim>\<open>getToken\<close> returns
  an error that carries the file's path and the cause, and \<^verbatim>\<open>newAPIConfig\<close> returns
  that error, having called no collaborator: no client and no watcher were made.
\<close>

theorem token_file_failure:
  assumes "Token sdc = None"
    and "Getenv env ''CONSUL_HTTP_TOKEN_FILE'' = tokenFile"
    and "tokenFile \<noteq> []"
    and "ReadFile env tokenFile = Inl e"
  shows "getToken env (Token sdc) = Inl (CannotReadTokenFile tokenFile e) \<and>
         newAPIConfig env co sdc baseDir = (Inl (CannotReadTokenFile tokenFile e), [])"
  using assms by (simp add: getToken_def newAPIConfig_def)

text \<open>
  An environment whose token file \<open>/etc/consul.token\<close> cannot be read.
\<close>

theorem token_file_failure_witness:
  "newAPIConfig exampleOs (exampleCollaborators ''42'') (exampleSDConfig\<lparr>Token := None\<rparr>) ''.'' =
     (Inl (CannotReadTokenFile ''/etc/consul.token'' (Err ''no such file or directory'')), [])"
proof -
  have h1: "Token (exampleSDConfig\<lparr>Token := None\<rparr>) = None" by simp
  have h2: "Getenv exampleOs ''CONSUL_HTTP_TOKEN_FILE'' = ''/etc/consul.token''"
    by (simp add: exampleOs_def)
  have h3: "''/etc/consul.token'' \<noteq> []" by simp
  have h4: "ReadFile exampleOs ''/etc/consul.token'' = Inl (Err ''no such file or directory'')"
    by (simp add: exampleOs_def)
  show ?thesis
    using token_file_failure [OF h1 h2 h3 h4, of "exampleCollaborators ''42''" "''.''"]
    by simp
qed



text \<open>
  Claim C7 (server-address normalization), as amended. Whenever \<^verbatim>\<open>newAPIConfig\<close>
  creates the HTTP client, it creates it for \<open>spec_normalizedServer\<close> of the
  descriptor's scheme and server: an empty server address stands for
  \<open>localhost:8500\<close> and gets the scheme (\<open>http\<close> if that is empty) and \<open>://\<close> in
  front, as does every address without \<open>://\<close>; an address with \<open>://\<close> is kept.
\<close>

theorem server_normalization:
  assumes "Call_NewClient apiServer \<in> set (snd (newAPIConfig env co sdc baseDir))"
  shows "apiServer = spec_normalizedServer (Scheme sdc) (Server sdc)"
  using assms
  by (auto simp: newAPIConfig_unfold getDatacenter_def split: sum.splits if_splits)

text \<open>
  The server \<open>localhost:8500\<close> with an empty scheme.
\<close>

theorem server_normalization_witness:
  "Call_NewClient ''http://localhost:8500''
     \<in> set (snd (newAPIConfig exampleOs (exampleCollaborators ''42'') exampleSDConfig ''.''))
   \<and> ''http://localhost:8500'' = spec_normalizedServer (Scheme exampleSDConfig) (Server exampleSDConfig)"
proof -
  have h: "Call_NewClient ''http://localhost:8500''
     \<in> set (snd (newAPIConfig exampleOs (exampleCollaborators ''42'') exampleSDConfig ''.''))"
    by (simp add: example_build)
  show ?thesis using h server_normalization [OF h] by simp
qed

text \<open>
  Claim C7 as stated fails: with the scheme \<open>https\<close>, an empty server address does
  not become the default \<open>http://localhost:8500\<close> but \<open>https://localhost:8500\<close>.
\<close>

theorem server_normalization_counterexample:
  "Server (exampleSDConfig\<lparr>Server := [], Scheme := ''https''\<rparr>) = [] \<and>
   snd (newAPIConfig exampleOs (exampleCollaborators ''42'')
          (exampleSDConfig\<lparr>Server := [], Scheme := ''https''\<rparr>) ''.'') =
     [Call_promauth_NewConfig ''.'' None ''abc'', Call_proxy_NewConfig ''.'',
      Call_NewClient ''https://localhost:8500'', Call_GetAPIResponse ''/v1/agent/self'',
      Call_newConsulWatcher ''dc1'']"
  by (simp add: newAPIConfig_unfold getToken_def exampleSDConfig_def exampleCollaborators_def exampleRegistry_def
      getDatacenter_query example_normalized)

text \<open>
  Claim C8 (datacenter resolution). In a build that comes to resolve the datacenter (the
  token, both authentication configurations and the client were obtained, the steps
  before it): with an explicit datacenter the endpoint \<open>/v1/agent/self\<close> is not
  queried and the explicit value is used as it is; with an empty one the endpoint is
  queried exactly once, and the build returns the error of the failed query, wrapped, or
  the error of parsing its response, and else uses the datacenter of the response.
\<close>

theorem datacenter_resolution:
  assumes tok: "getToken env (Token sdc) = Inr t"
    and auth: "promauth_NewConfig co baseDir
                 (if Username sdc = [] then None
                  else Some (BasicAuthConfig (Username sdc) (Password sdc)))
                 (if Username sdc = [] then t else []) (TLSConfig sdc) = Inr ac"
    and proxy: "proxy_NewConfig co (ProxyClientConfig sdc) baseDir = Inr pac"
    and cl: "discoveryutils_NewClient co (spec_normalizedServer (Scheme sdc) (Server sdc)) ac
               (ProxyURL sdc) pac = Inr client"
  shows "count_list (snd (newAPIConfig env co sdc baseDir)) (Call_GetAPIResponse ''/v1/agent/self'')
           = (if Datacenter sdc = [] then 1 else 0)
         \<and> fst (newAPIConfig env co sdc baseDir) =
             (if Datacenter sdc \<noteq> []
              then Inr \<lparr>tagSeparator = (case TagSeparator sdc of None \<Rightarrow> '','' | Some sep \<Rightarrow> sep),
                        consulWatcher = newConsulWatcher co client sdc (Datacenter sdc)\<rparr>
              else (case client_GetAPIResponse co client ''/v1/agent/self'' of
                      Inl err \<Rightarrow> Inl (CannotQueryAgentInfo err)
                    | Inr data \<Rightarrow>
                        (case parseAgent co data of
                           Inl err \<Rightarrow> Inl err
                         | Inr a \<Rightarrow>
                             Inr \<lparr>tagSeparator =
                                    (case TagSeparator sdc of None \<Rightarrow> '','' | Some sep \<Rightarrow> sep),
                                  consulWatcher =
                                    newConsulWatcher co client sdc (agent_Datacenter (Config a))\<rparr>)))"
proof (cases "Datacenter sdc = []")
  case True
  then show ?thesis
    using assms
    by (simp add: newAPIConfig_unfold getDatacenter_query split: sum.splits)
next
  case False
  then show ?thesis
    using assms
    by (simp add: newAPIConfig_unfold getDatacenter_explicit)
qed

text \<open>
  The example build, whose descriptor has no datacenter,
  queries the endpoint once and watches the datacenter \<open>dc1\<close> of the response.
\<close>

theorem datacenter_resolution_witness:
  "newAPIConfig exampleOs (exampleCollaborators ''42'') exampleSDConfig ''.'' =
     (Inr \<lparr>tagSeparator = '','', consulWatcher = ''dc1''\<rparr>,
      [Call_promauth_NewConfig ''.'' None ''abc'', Call_proxy_NewConfig ''.'',
       Call_NewClient ''http://localhost:8500'', Call_GetAPIResponse ''/v1/agent/self'',
       Call_newConsulWatcher ''dc1''])
   \<and> count_list (snd (newAPIConfig exampleOs (exampleCollaborators ''42'') exampleSDConfig ''.''))
         (Call_GetAPIResponse ''/v1/agent/self'') = 1"
proof -
  let ?co = "exampleCollaborators ''42''"
  have tok: "getToken exampleOs (Token exampleSDConfig) = Inr ''abc''"
    by (rule example_getToken)
  have auth: "promauth_NewConfig ?co ''.''
                 (if Username exampleSDConfig = [] then None
                  else Some (BasicAuthConfig (Username exampleSDConfig) (Password exampleSDConfig)))
                 (if Username exampleSDConfig = [] then ''abc'' else [])
                 (TLSConfig exampleSDConfig) = Inr ()"
    by (simp add: exampleCollaborators_def exampleRegistry_def)
  have proxy: "proxy_NewConfig ?co (ProxyClientConfig exampleSDConfig) ''.'' = Inr ()"
    by (simp add: exampleCollaborators_def exampleRegistry_def)
  have cl: "discoveryutils_NewClient ?co
              (spec_normalizedServer (Scheme exampleSDConfig) (Server exampleSDConfig)) ()
              (ProxyURL exampleSDConfig) () = Inr ()"
    by (simp add: exampleCollaborators_def exampleRegistry_def)
  have "count_list (snd (newAPIConfig exampleOs ?co exampleSDConfig ''.''))
          (Call_GetAPIResponse ''/v1/agent/self'') = 1"
    using datacenter_resolution [OF tok auth proxy cl] by (simp add: exampleSDConfig_def)
  then show ?thesis by (simp add: example_build)
qed



text \<open>
  Claim C10 (default tag separator). The configuration of a build that succeeds has the
  tag separator \<open>,\<close> when the descriptor's \<open>TagSeparator\<close> is \<^verbatim>\<open>nil\<close>, and the
  descriptor's separator otherwise, the empty one too.
\<close>

theorem default_tag_separator:
  assumes "newAPIConfig env co sdc baseDir = (Inr cfg, calls)"
  shows "tagSeparator cfg = (case TagSeparator sdc of None \<Rightarrow> '','' | Some sep \<Rightarrow> sep)"
  using assms by (auto simp: newAPIConfig_unfold split: sum.splits)

text \<open>
  The example build, whose descriptor has no separator, and the same build with the
  empty separator.
\<close>

theorem default_tag_separator_witness:
  "newAPIConfig exampleOs (exampleCollaborators ''42'') exampleSDConfig ''.'' =
     (Inr \<lparr>tagSeparator = '','', consulWatcher = ''dc1''\<rparr>,
      [Call_promauth_NewConfig ''.'' None ''abc'', Call_proxy_NewConfig ''.'',
       Call_NewClient ''http://localhost:8500'', Call_GetAPIResponse ''/v1/agent/self'',
       Call_newConsulWatcher ''dc1''])
   \<and> TagSeparator exampleSDConfig = None
   \<and> newAPIConfig exampleOs (exampleCollaborators ''42'')
         (exampleSDConfig\<lparr>TagSeparator := Some []\<rparr>) ''.'' =
     (Inr \<lparr>tagSeparator = [], consulWatcher = ''dc1''\<rparr>,
      [Call_promauth_NewConfig ''.'' None ''abc'', Call_proxy_NewConfig ''.'',
       Call_NewClient ''http://localhost:8500'', Call_GetAPIResponse ''/v1/agent/self'',
       Call_newConsulWatcher ''dc1''])"
proof -
  let ?calls = "[Call_promauth_NewConfig ''.'' None ''abc'', Call_proxy_NewConfig ''.'',
       Call_NewClient ''http://localhost:8500'', Call_GetAPIResponse ''/v1/agent/self'',
       Call_newConsulWatcher ''dc1'']"
  have h: "newAPIConfig exampleOs (exampleCollaborators ''42'') exampleSDConfig ''.'' =
     (Inr \<lparr>tagSeparator = '','', consulWatcher = ''dc1''\<rparr>, ?calls)"
    by (rule example_build)
  obtain cfg where h': "newAPIConfig exampleOs (exampleCollaborators ''42'')
         (exampleSDConfig\<lparr>TagSeparator := Some []\<rparr>) ''.'' = (Inr cfg, ?calls)"
    and w: "consulWatcher cfg = ''dc1''"
    by (simp add: newAPIConfig_unfold getToken_def exampleSDConfig_def exampleCollaborators_def
        exampleRegistry_def getDatacenter_query example_normalized)
  have "tagSeparator cfg = []"
    using default_tag_separator [OF h'] by (simp add: exampleSDConfig_def)
  with w have "cfg = \<lparr>tagSeparator = [], consulWatcher = ''dc1''\<rparr>" by simp
  with h h' show ?thesis by (simp add: exampleSDConfig_def)
qed

end
